theory Spec2Isabelle
  imports Main
begin

section \<open>Strings\<close>

text \<open>
  JavaScript's \<open>String.prototype.startsWith\<close> and \<open>String.prototype.includes\<close>, on
  strings as character lists.
\<close>

fun startsWith :: "string \<Rightarrow> string \<Rightarrow> bool" where
  "startsWith s [] = True"
| "startsWith [] (c # p) = False"
| "startsWith (x # s) (c # p) = (x = c \<and> startsWith s p)"

fun includes_str :: "string \<Rightarrow> string \<Rightarrow> bool" where
  "includes_str [] sub = (sub = [])"
| "includes_str (x # s) sub = (startsWith (x # s) sub \<or> includes_str s sub)"

section \<open>Retry-wrapped transport (\<open>generateContentWithRetry\<close>)\<close>

text \<open>
  A value thrown on the generation path. The transport reads three properties of it:
  \<open>error.message\<close> (through \<open>?.\<close>, so it may be absent), \<open>error.status\<close> and
  \<open>error.code\<close> (compared with \<open>===\<close> to the number 429, so anything that is not a
  number is \<open>None\<close> here). \<open>new Error(msg)\<close> has a message and neither of the other two.
\<close>

record api_error =
  message :: "string option"
  status :: "int option"
  code :: "int option"

definition Error :: "string \<Rightarrow> api_error" where
  "Error msg = \<lparr>message = Some msg, status = None, code = None\<rparr>"

text \<open>The response of the backend; only its \<open>text\<close> property is read, and it may be absent.\<close>

record response =
  resp_text :: "string option"

text \<open>
  What the transport does to the outside: the number of \<open>ai.models.generateContent\<close> calls
  made so far and the arguments of the \<open>delay\<close> calls (milliseconds), in order.
\<close>

record transport_log =
  calls :: nat
  delays :: "int list"

text \<open>
  A scripted backend: the outcome of its n-th call (from 0), either the thrown error or
  the response.
\<close>

type_synonym backend = "nat \<Rightarrow> api_error + response"

definition isRateLimit :: "api_error \<Rightarrow> bool" where
  "isRateLimit error =
     ((case message error of None \<Rightarrow> False | Some m \<Rightarrow> includes_str m ''429'')
      \<or> status error = Some 429 \<or> code error = Some 429)"

text \<open>
  The \<open>while (attempt < maxRetries)\<close> loop. Each iteration calls the backend once; a
  response is returned, a rate-limit error before the last attempt is followed by
  \<open>delay(2^attempt * 1000)\<close> and \<open>attempt++\<close>, every other error is rethrown. Leaving the
  loop throws \<open>Error("Max retries exceeded")\<close>.
\<close>

function retry_loop :: "backend \<Rightarrow> int \<Rightarrow> int \<Rightarrow> transport_log \<Rightarrow> (api_error + response) \<times> transport_log" where
  "retry_loop ai maxRetries attempt lg =
     (if attempt < maxRetries then
        (case ai (calls lg) of
           Inr resp \<Rightarrow> (Inr resp, lg\<lparr>calls := calls lg + 1\<rparr>)
         | Inl error \<Rightarrow>
             (if isRateLimit error \<and> attempt < maxRetries - 1 then
                retry_loop ai maxRetries (attempt + 1)
                  (lg\<lparr>calls := calls lg + 1, delays := delays lg @ [2 ^ nat attempt * 1000]\<rparr>)
              else (Inl error, lg\<lparr>calls := calls lg + 1\<rparr>)))
      else (Inl (Error ''Max retries exceeded''), lg))"
  by pat_completeness auto
termination
  by (relation "measure (\<lambda>(ai, maxRetries, attempt, lg). nat (maxRetries - attempt))") auto

definition generateContentWithRetry :: "backend \<Rightarrow> int \<Rightarrow> (api_error + response) \<times> transport_log" where
  "generateContentWithRetry ai maxRetries = retry_loop ai maxRetries 0 \<lparr>calls = 0, delays = []\<rparr>"

declare retry_loop.simps [simp del]

section \<open>Data model\<close>

datatype ProjectStep = IDEA | RESEARCH | PRD | PLANNING | DESIGN | CODE

text \<open>
  \<open>content\<close> is a string for the type checker; \<open>None\<close> is the \<open>undefined\<close> that
  \<open>result.split(',')[1]\<close> yields at run time when the result has no comma.
\<close>

record ResearchDocument =
  doc_id :: string
  name :: string
  content :: "string option"
  mimeType :: string
  source :: string

text \<open>
  \<open>project_id\<close> is the optional \<open>id\<close> property, which \<open>loadProjectDetails\<close> and
  \<open>createNewProject\<close> set and \<open>initialState\<close> does not have.
\<close>

record ProjectState =
  project_id :: "string option"
  title :: string
  currentStep :: ProjectStep
  research :: "ResearchDocument list"
  ideaInput :: string
  synthesizedIdea :: string
  prdOutput :: string
  roadmapOutput :: string
  designSystemOutput :: string
  codePromptOutput :: string
  isGenerating :: bool

definition initialState :: ProjectState where
  "initialState =
     \<lparr>project_id = None,
      title = ''Untitled Project'',
      currentStep = IDEA,
      research = [],
      ideaInput = [],
      synthesizedIdea = [],
      prdOutput = [],
      roadmapOutput = [],
      designSystemOutput = [],
      codePromptOutput = [],
      isGenerating = False\<rparr>"

section \<open>Generation service\<close>

text \<open>JavaScript's \<open>a || b\<close> on strings: the empty string and a missing value are falsy.\<close>

definition truthy :: "string option \<Rightarrow> bool" where
  "truthy v = (case v of None \<Rightarrow> False | Some s \<Rightarrow> s \<noteq> [])"

definition or_str :: "string \<Rightarrow> string \<Rightarrow> string" where
  "or_str a b = (if a \<noteq> [] then a else b)"

definition or_opt :: "string option \<Rightarrow> string option \<Rightarrow> string option" where
  "or_opt a b = (if truthy a then a else b)"

text \<open>\<open>v || d\<close> for a value that may be missing and a string \<open>d\<close>.\<close>

definition or_default :: "string option \<Rightarrow> string \<Rightarrow> string" where
  "or_default v d = (case v of None \<Rightarrow> d | Some s \<Rightarrow> if s = [] then d else s)"

text \<open>A template literal prints a missing value as the word \<open>undefined\<close>.\<close>

definition interpolate :: "string option \<Rightarrow> string" where
  "interpolate v = (case v of None \<Rightarrow> ''undefined'' | Some s \<Rightarrow> s)"

record env =
  VITE_API_KEY :: "string option"
  API_KEY :: "string option"

text \<open>The client is stood for by the key it was made with.\<close>

definition getClient :: "env \<Rightarrow> api_error + string" where
  "getClient e =
     (let apiKey = or_opt (VITE_API_KEY e) (API_KEY e)
      in case apiKey of
           None \<Rightarrow> Inl (Error ''API Key not found in environment variables'')
         | Some k \<Rightarrow>
             (if k = [] then Inl (Error ''API Key not found in environment variables'')
              else Inr k))"

text \<open>
  The request contents. The fixed wording of each instruction template is stood for by
  its constructor; the values the source interpolates into it are the arguments. The
  text part of a research document is spelled out.
\<close>

datatype part =
    PrdInstruction string
  | TextPart string
  | InlineData string "string option"

datatype contents =
    RefineIdeaPrompt string
  | PrdParts "part list"
  | PlanPrompt string
  | DesignPrompt string string
  | CodePrompt string string string

text \<open>The backend as the service sees it: a scripted outcome for each request.\<close>

type_synonym genai = "contents \<Rightarrow> backend"

text \<open>
  The part every generation function ends with: \<open>getClient()\<close>, then
  \<open>generateContentWithRetry\<close> with the default \<open>maxRetries = 3\<close>, then
  \<open>response.text || fallback\<close>. An error of either call leaves the function.
\<close>

definition call_model :: "env \<Rightarrow> genai \<Rightarrow> contents \<Rightarrow> string \<Rightarrow> (api_error + string) \<times> transport_log" where
  "call_model e ai c fallback =
     (case getClient e of
        Inl err \<Rightarrow> (Inl err, \<lparr>calls = 0, delays = []\<rparr>)
      | Inr client \<Rightarrow>
          (case generateContentWithRetry (ai c) 3 of
             (Inl err, lg) \<Rightarrow> (Inl err, lg)
           | (Inr resp, lg) \<Rightarrow> (Inr (or_default (resp_text resp) fallback), lg)))"

definition refineIdea :: "env \<Rightarrow> genai \<Rightarrow> string \<Rightarrow> (api_error + string) \<times> transport_log" where
  "refineIdea e ai rawInput = call_model e ai (RefineIdeaPrompt rawInput) ''Failed to refine idea.''"

definition research_part :: "ResearchDocument \<Rightarrow> part" where
  "research_part d =
     (if mimeType d = ''application/pdf'' then InlineData ''application/pdf'' (content d)
      else TextPart (''--- RESEARCH DOCUMENT: '' @ name d @ '' ---'' @ [CHR 0x0A]
                     @ interpolate (content d) @ [CHR 0x0A] @ ''--- END DOCUMENT ---''))"

definition generatePRD :: "env \<Rightarrow> genai \<Rightarrow> string \<Rightarrow> ResearchDocument list \<Rightarrow> (api_error + string) \<times> transport_log" where
  "generatePRD e ai idea docs =
     call_model e ai (PrdParts (PrdInstruction idea # map research_part docs)) ''Failed to generate PRD.''"

definition generatePlan :: "env \<Rightarrow> genai \<Rightarrow> string \<Rightarrow> (api_error + string) \<times> transport_log" where
  "generatePlan e ai prd = call_model e ai (PlanPrompt prd) ''Failed to generate Plan.''"

definition generateDesignSystem :: "env \<Rightarrow> genai \<Rightarrow> string \<Rightarrow> string \<Rightarrow> (api_error + string) \<times> transport_log" where
  "generateDesignSystem e ai prd plan =
     call_model e ai (DesignPrompt (take 3000 prd) (take 3000 plan)) ''Failed to generate Design.''"

definition generateCodePrompt :: "env \<Rightarrow> genai \<Rightarrow> ProjectState \<Rightarrow> (api_error + string) \<times> transport_log" where
  "generateCodePrompt e ai projectState =
     call_model e ai
       (CodePrompt (or_str (synthesizedIdea projectState) (ideaInput projectState))
                   (designSystemOutput projectState) (roadmapOutput projectState))
       ''Failed to generate Code Prompt.''"

section \<open>Project provider\<close>

text \<open>
  The component's state that the operations below touch (\<open>state\<close> and
  \<open>currentProjectId\<close>), and what they do to the outside: the messages shown with
  \<open>alert\<close>, and the number of backend calls made.
\<close>

record provider =
  state :: ProjectState
  currentProjectId :: "string option"
  alerts :: "string list"
  backend_calls :: nat

definition setState :: "(ProjectState \<Rightarrow> ProjectState) \<Rightarrow> provider \<Rightarrow> provider" where
  "setState f p = p\<lparr>state := f (state p)\<rparr>"

definition alert :: "string \<Rightarrow> provider \<Rightarrow> provider" where
  "alert msg p = p\<lparr>alerts := alerts p @ [msg]\<rparr>"

subsection \<open>\<open>updateIdea\<close> and \<open>resetProject\<close>\<close>

definition updateIdea :: "string \<Rightarrow> provider \<Rightarrow> provider" where
  "updateIdea idea p = setState (\<lambda>prev. prev\<lparr>ideaInput := idea\<rparr>) p"

text \<open>\<open>confirmed\<close> is the answer of the \<open>confirm\<close> dialog.\<close>

definition resetProject :: "bool \<Rightarrow> provider \<Rightarrow> provider" where
  "resetProject confirmed p =
     (if confirmed then
        (let resetState = initialState\<lparr>title := title (state p)\<rparr>
         in setState (\<lambda>prev. resetState) p)
      else p)"

subsection \<open>\<open>generateArtifact\<close>\<close>

text \<open>
  \<open>const result = await f(...); setState(prev => ...)\<close>: an error of the awaited call
  leaves the \<open>try\<close> block before the update; the backend calls it made are counted
  either way.
\<close>

definition await_then ::
  "(api_error + string) \<times> transport_log \<Rightarrow> (string \<Rightarrow> ProjectState \<Rightarrow> ProjectState) \<Rightarrow> provider
     \<Rightarrow> (api_error + unit) \<times> provider" where
  "await_then call upd p =
     (case call of
        (Inl err, lg) \<Rightarrow> (Inl err, p\<lparr>backend_calls := backend_calls p + calls lg\<rparr>)
      | (Inr result, lg) \<Rightarrow>
          (Inr (), setState (upd result) (p\<lparr>backend_calls := backend_calls p + calls lg\<rparr>)))"

text \<open>
  The \<open>try\<close> block. \<open>st\<close> is the \<open>state\<close> of the closure, from which the arguments
  of the calls are read; the updates go through \<open>setState(prev => ...)\<close>.
\<close>

definition generateArtifact_try ::
  "env \<Rightarrow> genai \<Rightarrow> ProjectStep \<Rightarrow> ProjectState \<Rightarrow> provider \<Rightarrow> (api_error + unit) \<times> provider" where
  "generateArtifact_try e ai step st p =
     (if step = IDEA then
        await_then (refineIdea e ai (ideaInput st))
          (\<lambda>result prev. prev\<lparr>synthesizedIdea := result\<rparr>) p
      else if step = PRD then
        (let inputIdea = or_str (synthesizedIdea st) (ideaInput st)
         in await_then (generatePRD e ai inputIdea (research st))
              (\<lambda>result prev. prev\<lparr>prdOutput := result\<rparr>) p)
      else if step = PLANNING then
        await_then (generatePlan e ai (prdOutput st))
          (\<lambda>result prev. prev\<lparr>roadmapOutput := result\<rparr>) p
      else if step = DESIGN then
        await_then (generateDesignSystem e ai (prdOutput st) (roadmapOutput st))
          (\<lambda>result prev. prev\<lparr>designSystemOutput := result\<rparr>) p
      else if step = CODE then
        await_then (generateCodePrompt e ai st)
          (\<lambda>result prev. prev\<lparr>codePromptOutput := result\<rparr>) p
      else (Inr (), p))"

text \<open>
  The whole operation: set the flag, run the \<open>try\<close> block, in \<open>catch\<close> show the alert
  and go on normally, in \<open>finally\<close> clear the flag. The first component is what the
  caller's \<open>await\<close> sees: \<open>Inl\<close> a rejection, \<open>Inr ()\<close> a normal return.
\<close>

definition generateArtifact ::
  "env \<Rightarrow> genai \<Rightarrow> ProjectStep \<Rightarrow> provider \<Rightarrow> (api_error + unit) \<times> provider" where
  "generateArtifact e ai step p =
     (let p1 = setState (\<lambda>prev. prev\<lparr>isGenerating := True\<rparr>) p;
          (r, p2) = generateArtifact_try e ai step (state p) p1;
          (r', p3) = (case r of
                        Inl error \<Rightarrow>
                          (Inr (), alert ''Failed to generate content. Please check your API key and try again.'' p2)
                      | Inr u \<Rightarrow> (Inr u, p2));
          p4 = setState (\<lambda>prev. prev\<lparr>isGenerating := False\<rparr>) p3
      in (r', p4))"

text \<open>
  The \<open>disabled\<close> attribute of the generate button of the PRD, Planning, Design and
  Code pages.
\<close>

definition PrdPage_disabled :: "ProjectState \<Rightarrow> bool" where
  "PrdPage_disabled st = isGenerating st"

definition PlanningPage_disabled :: "ProjectState \<Rightarrow> bool" where
  "PlanningPage_disabled st = (isGenerating st \<or> prdOutput st = [])"

definition DesignPage_disabled :: "ProjectState \<Rightarrow> bool" where
  "DesignPage_disabled st = (isGenerating st \<or> roadmapOutput st = [])"

definition CodePage_disabled :: "ProjectState \<Rightarrow> bool" where
  "CodePage_disabled st = (isGenerating st \<or> designSystemOutput st = [])"

subsection \<open>\<open>addResearch\<close>\<close>

text \<open>
  How a promise ends: resolved, rejected, or never settled.
\<close>

datatype 'a outcome = Resolved 'a | Rejected api_error | Pending

text \<open>
  How \<open>reader.readAsDataURL(file)\<close> ends: with a \<open>load\<close> event, whose
  \<open>e.target.result\<close> may be missing, or with an \<open>error\<close> event when the bytes cannot
  be read. The source sets \<open>reader.onload\<close> and no other handler.
\<close>

datatype reader_event = Load "string option" | ReadError

text \<open>
  A file: its name, its declared type and what reading it gives, as text
  (\<open>file.text()\<close>, rejected when the bytes cannot be read) and as a data URL.
\<close>

record File =
  file_name :: string
  file_type :: string
  file_text :: "api_error + string"
  file_dataURL :: reader_event

text \<open>\<open>s.split(c)\<close> for a one-character separator, and \<open>xs[i]\<close>.\<close>

fun split :: "char \<Rightarrow> string \<Rightarrow> string list" where
  "split c [] = [[]]"
| "split c (x # xs) =
     (if x = c then [] # split c xs
      else (case split c xs of [] \<Rightarrow> [[x]] | f # fs \<Rightarrow> (x # f) # fs))"

definition index :: "'a list \<Rightarrow> nat \<Rightarrow> 'a option" where
  "index xs i = (if i < length xs then Some (xs ! i) else None)"

text \<open>The promise around the \<open>FileReader\<close>.\<close>

definition read_pdf :: "File \<Rightarrow> string option outcome" where
  "read_pdf file =
     (case file_dataURL file of
        Load None \<Rightarrow> Rejected (Error ''Failed to read file'')
      | Load (Some result) \<Rightarrow>
          (if result \<noteq> [] then Resolved (index (split (CHR '','') result) 1)
           else Rejected (Error ''Failed to read file''))
      | ReadError \<Rightarrow> Pending)"

definition newDoc :: "string \<Rightarrow> File \<Rightarrow> string option \<Rightarrow> string \<Rightarrow> ResearchDocument" where
  "newDoc rid file c m =
     \<lparr>doc_id = rid, name = file_name file, content = c, mimeType = m, source = ''upload''\<rparr>"

definition append_research :: "ResearchDocument \<Rightarrow> provider \<Rightarrow> provider" where
  "append_research d p = setState (\<lambda>prev. prev\<lparr>research := research prev @ [d]\<rparr>) p"

text \<open>\<open>rid\<close> is the identifier drawn from \<open>Math.random()\<close>.\<close>

definition addResearch :: "string \<Rightarrow> File \<Rightarrow> provider \<Rightarrow> provider outcome" where
  "addResearch rid file p =
     (if file_type file = ''application/pdf'' then
        (case read_pdf file of
           Resolved c \<Rightarrow> Resolved (append_research (newDoc rid file c (file_type file)) p)
         | Rejected err \<Rightarrow> Rejected err
         | Pending \<Rightarrow> Pending)
      else
        (case file_text file of
           Inl err \<Rightarrow> Rejected err
         | Inr c \<Rightarrow>
             Resolved (append_research
               (newDoc rid file (Some c) (if file_type file = [] then ''text/plain'' else file_type file)) p)))"

subsection \<open>Reachable states\<close>

text \<open>
  The states that the operations of the context (\<open>updateIdea\<close>, \<open>addResearch\<close>,
  \<open>generateArtifact\<close>, \<open>resetProject\<close>) produce from \<open>initialState\<close>, whatever the
  environment, the backend, the files and the answers to \<open>confirm\<close>.
\<close>

inductive reachable :: "provider \<Rightarrow> bool" where
  initial: "reachable \<lparr>state = initialState, currentProjectId = cid, alerts = [], backend_calls = 0\<rparr>"
| updateIdea: "reachable p \<Longrightarrow> reachable (updateIdea idea p)"
| addResearch: "reachable p \<Longrightarrow> addResearch rid file p = Resolved p' \<Longrightarrow> reachable p'"
| generateArtifact: "reachable p \<Longrightarrow> reachable (snd (generateArtifact e ai step p))"
| resetProject: "reachable p \<Longrightarrow> reachable (resetProject confirmed p)"

section \<open>Persistence\<close>

subsection \<open>\<open>loadProject\<close>\<close>

text \<open>
  The store, as \<open>loadProject\<close> uses it: \<open>getDoc(doc(db, 'projects', userId))\<close> either
  throws or gives a snapshot, \<open>None\<close> when \<open>docSnap.exists()\<close> is false and the data
  otherwise.
\<close>

type_synonym store = "string \<Rightarrow> api_error + ProjectState option"

text \<open>
  The result is what the caller's \<open>await\<close> sees (\<open>Inl\<close> a rejection, \<open>Inr None\<close> for
  \<open>null\<close>), with the errors written by \<open>console.error\<close>.
\<close>

definition loadProject :: "store \<Rightarrow> string \<Rightarrow> (api_error + ProjectState option) \<times> api_error list" where
  "loadProject getDoc userId =
     (case getDoc userId of
        Inr docSnap \<Rightarrow>
          (case docSnap of
             Some d \<Rightarrow> (Inr (Some d), [])
           | None \<Rightarrow> (Inr None, []))
      | Inl error \<Rightarrow> (Inr None, [error]))"

subsection \<open>Autosave\<close>

text \<open>
  The effect on \<open>[state, user, currentProjectId]\<close>. \<open>setTimeout\<close> adds a timer, which
  holds the time it is due (milliseconds) and the values its callback closes over, and
  returns its identifier; timers are independent of each other, and a timer stays until
  it runs or \<open>clearTimeout\<close> is called with its identifier. \<open>cleanup\<close> is the
  identifier the cleanup function of the last effect run closes over, \<open>None\<close> when that
  run returned no cleanup function. \<open>writes\<close> are the \<open>saveProject\<close> calls made, in
  order. (The callback also refreshes the entry of the project list, which is not one of
  the effect's dependencies.)
\<close>

record timer =
  timer_id :: nat
  due :: nat
  uid :: string
  pid :: string
  snapshot :: ProjectState

record autosave =
  timers :: "timer list"
  next_id :: nat
  cleanup :: "nat option"
  writes :: "(string \<times> string \<times> ProjectState) list"

text \<open>\<open>setTimeout(callback, delay)\<close> called at time \<open>now\<close>.\<close>

definition setTimeout :: "nat \<Rightarrow> nat \<Rightarrow> string \<Rightarrow> string \<Rightarrow> ProjectState \<Rightarrow> autosave \<Rightarrow> nat \<times> autosave" where
  "setTimeout now delay u c st a =
     (next_id a,
      a\<lparr>timers := timers a @ [\<lparr>timer_id = next_id a, due = now + delay, uid = u, pid = c, snapshot = st\<rparr>],
        next_id := next_id a + 1\<rparr>)"

definition clearTimeout :: "nat \<Rightarrow> autosave \<Rightarrow> autosave" where
  "clearTimeout timeoutId a = a\<lparr>timers := filter (\<lambda>t. timer_id t \<noteq> timeoutId) (timers a)\<rparr>"

text \<open>
  Time passes up to \<open>now\<close>: the timers that are due run their callbacks, the earliest
  first, and are gone.
\<close>

definition elapse :: "nat \<Rightarrow> autosave \<Rightarrow> autosave" where
  "elapse now a =
     a\<lparr>timers := filter (\<lambda>t. \<not> due t \<le> now) (timers a),
       writes := writes a @ map (\<lambda>t. (uid t, pid t, snapshot t))
                              (sort_key due (filter (\<lambda>t. due t \<le> now) (timers a)))\<rparr>"

text \<open>The cleanup function of the last effect run: \<open>() => clearTimeout(timeoutId)\<close>.\<close>

definition run_cleanup :: "autosave \<Rightarrow> autosave" where
  "run_cleanup a = (case cleanup a of None \<Rightarrow> a | Some timeoutId \<Rightarrow> clearTimeout timeoutId a)"

text \<open>
  The body of the effect, run at time \<open>now\<close> with the rendered values. \<open>user\<close> is the
  signed-in user's \<open>uid\<close>, \<open>None\<close> when \<open>user\<close> is null.
\<close>

definition autosave_effect :: "nat \<Rightarrow> string option \<Rightarrow> string option \<Rightarrow> ProjectState \<Rightarrow> autosave \<Rightarrow> autosave" where
  "autosave_effect now user cpid st a =
     (case user of
        None \<Rightarrow> a\<lparr>cleanup := None\<rparr>
      | Some u \<Rightarrow>
          (case cpid of
             None \<Rightarrow> a\<lparr>cleanup := None\<rparr>
           | Some c \<Rightarrow>
               (if c \<noteq> [] then
                  (let (timeoutId, a') = setTimeout now 2000 u c st a
                   in a'\<lparr>cleanup := Some timeoutId\<rparr>)
                else a\<lparr>cleanup := None\<rparr>)))"

text \<open>
  A state mutation at time \<open>now\<close> that renders \<open>st\<close>: the cleanup of the previous run
  is called and the effect runs again.
\<close>

definition mutation :: "string option \<Rightarrow> string option \<Rightarrow> nat \<Rightarrow> ProjectState \<Rightarrow> autosave \<Rightarrow> autosave" where
  "mutation user cpid now st a = autosave_effect now user cpid st (run_cleanup (elapse now a))"

fun mutations :: "string option \<Rightarrow> string option \<Rightarrow> (nat \<times> ProjectState) list \<Rightarrow> autosave \<Rightarrow> autosave" where
  "mutations user cpid [] a = a"
| "mutations user cpid ((now, st) # ms) a = mutations user cpid ms (mutation user cpid now st a)"

text \<open>
  A burst: the times do not go back, and each mutation comes less than the quiet period
  after the one before.
\<close>

fun burst :: "(nat \<times> ProjectState) list \<Rightarrow> bool" where
  "burst [] = True"
| "burst [m] = True"
| "burst (m # m' # ms) = (fst m \<le> fst m' \<and> fst m' < fst m + 2000 \<and> burst (m' # ms))"

text \<open>
  No save is due at time \<open>now\<close>: either no timer is left, or the one timer left is the
  one the cleanup of the last effect run clears, and it is due later.
\<close>

definition no_save_due :: "nat \<Rightarrow> autosave \<Rightarrow> bool" where
  "no_save_due now a =
     (case timers a of
        [] \<Rightarrow> True
      | [t] \<Rightarrow> cleanup a = Some (timer_id t) \<and> now < due t
      | _ \<Rightarrow> False)"

text \<open>What a timer will save, and when.\<close>

definition scheduled :: "timer \<Rightarrow> nat \<times> string \<times> string \<times> ProjectState" where
  "scheduled t = (due t, uid t, pid t, snapshot t)"

section \<open>Concrete inputs\<close>

definition rate_limit_error :: api_error where
  "rate_limit_error = \<lparr>message = Some ''Resource has been exhausted'', status = Some 429, code = None\<rparr>"

definition service_unavailable :: api_error where
  "service_unavailable = \<lparr>message = Some ''The model is overloaded'', status = Some 503, code = None\<rparr>"

definition unauthorized :: api_error where
  "unauthorized = \<lparr>message = Some ''API key not valid'', status = Some 400, code = None\<rparr>"

definition ok_response :: response where
  "ok_response = \<lparr>resp_text = Some ''Roadmap''\<rparr>"

definition always_rate_limited :: backend where
  "always_rate_limited n = Inl rate_limit_error"

definition rate_limited_twice :: backend where
  "rate_limited_twice n = (if n < 2 then Inl rate_limit_error else Inr ok_response)"

definition unavailable_once :: backend where
  "unavailable_once n = (if n = 0 then Inl service_unavailable else Inr ok_response)"

definition env_with_key :: env where
  "env_with_key = \<lparr>VITE_API_KEY = Some ''key'', API_KEY = None\<rparr>"

definition ai_ok :: genai where
  "ai_ok c n = Inr ok_response"

definition ai_unauthorized :: genai where
  "ai_unauthorized c n = Inl unauthorized"

definition fresh :: provider where
  "fresh = \<lparr>state = initialState, currentProjectId = Some ''p1'', alerts = [], backend_calls = 0\<rparr>"

definition with_prd :: provider where
  "with_prd = setState (\<lambda>prev. prev\<lparr>prdOutput := ''PRD''\<rparr>) fresh"

definition not_readable :: api_error where
  "not_readable = \<lparr>message = Some ''The requested file could not be read'', status = None, code = None\<rparr>"

definition png_file :: File where
  "png_file =
     \<lparr>file_name = ''logo.png'', file_type = ''image/png'', file_text = Inr ''PNG raw bytes'',
      file_dataURL = Load (Some ''data:image/png;base64,iVBORw0KGgo='')\<rparr>"

definition pdf_file :: File where
  "pdf_file =
     \<lparr>file_name = ''report.pdf'', file_type = ''application/pdf'', file_text = Inr ''%PDF-1.4'',
      file_dataURL = Load (Some ''data:application/pdf;base64,JVBERi0xLjQ='')\<rparr>"

definition notes_file :: File where
  "notes_file =
     \<lparr>file_name = ''notes'', file_type = [], file_text = Inr ''some notes'',
      file_dataURL = Load (Some ''data:application/octet-stream;base64,c29tZSBub3Rlcw=='')\<rparr>"

definition unreadable_pdf :: File where
  "unreadable_pdf =
     \<lparr>file_name = ''report.pdf'', file_type = ''application/pdf'', file_text = Inl not_readable,
      file_dataURL = ReadError\<rparr>"

definition store_unreachable :: api_error where
  "store_unreachable = \<lparr>message = Some ''Failed to get document because the client is offline.'', status = None, code = None\<rparr>"

definition offline_store :: store where
  "offline_store userId = Inl store_unreachable"

definition loaded :: provider where
  "loaded =
     \<lparr>state = initialState\<lparr>project_id := Some ''p1'', title := ''New Project 1'',
                                ideaInput := ''fitness app for seniors'', synthesizedIdea := ''Vision''\<rparr>,
      currentProjectId = Some ''p1'', alerts = [], backend_calls = 0\<rparr>"

definition idle :: autosave where
  "idle = \<lparr>timers = [], next_id = 0, cleanup = None, writes = []\<rparr>"

definition typing :: "(nat \<times> ProjectState) list" where
  "typing =
     [(0, initialState\<lparr>ideaInput := ''f''\<rparr>),
      (500, initialState\<lparr>ideaInput := ''fi''\<rparr>),
      (1900, initialState\<lparr>ideaInput := ''fit''\<rparr>)]"

section \<open>Evaluating the model\<close>

lemmas service_defs =
  generateArtifact_def generateArtifact_try_def refineIdea_def generatePRD_def generatePlan_def
  generateDesignSystem_def generateCodePrompt_def call_model_def getClient_def or_opt_def or_str_def
  truthy_def or_default_def generateContentWithRetry_def retry_loop.simps isRateLimit_def
  await_then_def setState_def alert_def Error_def

lemmas input_defs =
  env_with_key_def ai_ok_def ai_unauthorized_def ok_response_def unauthorized_def fresh_def
  with_prd_def initialState_def rate_limit_error_def service_unavailable_def
  always_rate_limited_def rate_limited_twice_def unavailable_once_def

section \<open>The retry loop\<close>

text \<open>
  With a backend that answers every call with a rate-limit error, the loop started at
  \<open>attempt\<close> calls the backend once for each remaining attempt, waits after each call but
  the last, and ends with the error of the last call.
\<close>

lemma retry_loop_rate_limited:
  "\<forall>n. \<exists>e. ai n = Inl e \<and> isRateLimit e \<Longrightarrow> 0 \<le> attempt \<Longrightarrow> attempt < maxRetries \<Longrightarrow>
   retry_loop ai maxRetries attempt lg =
     (ai (calls lg + nat (maxRetries - 1 - attempt)),
      \<lparr>calls = calls lg + nat (maxRetries - attempt),
       delays = delays lg @ map (\<lambda>k. 2 ^ k * 1000) [nat attempt..<nat (maxRetries - 1)]\<rparr>)"
proof (induction ai maxRetries attempt lg rule: retry_loop.induct)
  case (1 ai maxRetries attempt lg)
  from "1.prems"(1) obtain e where e: "ai (calls lg) = Inl e" "isRateLimit e" by blast
  show ?case
  proof (cases "attempt < maxRetries - 1")
    case True
    have step: "retry_loop ai maxRetries attempt lg =
        retry_loop ai maxRetries (attempt + 1)
          (lg\<lparr>calls := calls lg + 1, delays := delays lg @ [2 ^ nat attempt * 1000]\<rparr>)"
      using "1.prems" e True by (subst retry_loop.simps) simp
    have ih: "retry_loop ai maxRetries (attempt + 1)
          (lg\<lparr>calls := calls lg + 1, delays := delays lg @ [2 ^ nat attempt * 1000]\<rparr>) =
       (ai (calls lg + 1 + nat (maxRetries - 1 - (attempt + 1))),
        \<lparr>calls = calls lg + 1 + nat (maxRetries - (attempt + 1)),
         delays = (delays lg @ [2 ^ nat attempt * 1000]) @
           map (\<lambda>k. 2 ^ k * 1000) [nat (attempt + 1)..<nat (maxRetries - 1)]\<rparr>)"
      using "1.IH"[OF _ e(1) _ "1.prems"(1)] "1.prems" True e by simp
    have a1: "calls lg + 1 + nat (maxRetries - 1 - (attempt + 1)) = calls lg + nat (maxRetries - 1 - attempt)"
      using "1.prems" True by simp
    have a2: "calls lg + 1 + nat (maxRetries - (attempt + 1)) = calls lg + nat (maxRetries - attempt)"
      using "1.prems" True by simp
    have a3: "[nat attempt..<nat (maxRetries - 1)] = nat attempt # [nat (attempt + 1)..<nat (maxRetries - 1)]"
      using "1.prems" True by (simp add: upt_conv_Cons nat_add_distrib)
    show ?thesis unfolding step ih a1 a2 a3 by simp
  next
    case False
    with "1.prems" have eq: "attempt = maxRetries - 1" by simp
    have "retry_loop ai maxRetries attempt lg = (Inl e, lg\<lparr>calls := calls lg + 1\<rparr>)"
      using "1.prems" e False by (subst retry_loop.simps) simp
    then show ?thesis using eq e by simp
  qed
qed

text \<open>The loop never takes a call back, and an attempt that is left makes one.\<close>

lemma retry_loop_calls_mono:
  "calls lg \<le> calls (snd (retry_loop ai maxRetries attempt lg))"
proof (induction ai maxRetries attempt lg rule: retry_loop.induct)
  case (1 ai maxRetries attempt lg)
  show ?case
  proof (cases "attempt < maxRetries")
    case False
    then show ?thesis by (subst retry_loop.simps) simp
  next
    case True
    show ?thesis
    proof (cases "ai (calls lg)")
      case (Inr resp)
      with True show ?thesis by (subst retry_loop.simps) simp
    next
      case (Inl error)
      show ?thesis
      proof (cases "isRateLimit error \<and> attempt < maxRetries - 1")
        case False
        with True Inl show ?thesis by (subst retry_loop.simps) auto
      next
        case rl: True
        have "calls (lg\<lparr>calls := calls lg + 1, delays := delays lg @ [2 ^ nat attempt * 1000]\<rparr>)
              \<le> calls (snd (retry_loop ai maxRetries (attempt + 1)
                   (lg\<lparr>calls := calls lg + 1, delays := delays lg @ [2 ^ nat attempt * 1000]\<rparr>)))"
          using "1.IH"[OF True Inl rl] .
        with True Inl rl show ?thesis by (subst retry_loop.simps) simp
      qed
    qed
  qed
qed

lemma retry_loop_calls_pos:
  assumes "attempt < maxRetries"
  shows "calls lg < calls (snd (retry_loop ai maxRetries attempt lg))"
proof (cases "ai (calls lg)")
  case (Inr resp)
  with assms show ?thesis by (subst retry_loop.simps) simp
next
  case (Inl error)
  show ?thesis
  proof (cases "isRateLimit error \<and> attempt < maxRetries - 1")
    case False
    with assms Inl show ?thesis by (subst retry_loop.simps) auto
  next
    case True
    have "calls (lg\<lparr>calls := calls lg + 1, delays := delays lg @ [2 ^ nat attempt * 1000]\<rparr>)
          \<le> calls (snd (retry_loop ai maxRetries (attempt + 1)
               (lg\<lparr>calls := calls lg + 1, delays := delays lg @ [2 ^ nat attempt * 1000]\<rparr>)))"
      by (rule retry_loop_calls_mono)
    with assms Inl True show ?thesis by (subst retry_loop.simps) simp
  qed
qed

text \<open>
  Two rate-limit errors and then a response, with \<open>maxRetries = 3\<close>: three calls, waits
  of 1000 and 2000 milliseconds, and the response of the third call.
\<close>

lemma generateContentWithRetry_two_rate_limits:
  assumes "ai 0 = Inl e0" "isRateLimit e0" "ai 1 = Inl e1" "isRateLimit e1" "ai 2 = Inr r"
  shows "generateContentWithRetry ai 3 = (Inr r, \<lparr>calls = 3, delays = [1000, 2000]\<rparr>)"
  using assms by (simp add: generateContentWithRetry_def retry_loop.simps numeral_2_eq_2)

lemma generateContentWithRetry_rate_limited_twice:
  "generateContentWithRetry rate_limited_twice 3 = (Inr ok_response, \<lparr>calls = 3, delays = [1000, 2000]\<rparr>)"
  by (rule generateContentWithRetry_two_rate_limits[where ?e0.0 = rate_limit_error and ?e1.0 = rate_limit_error])
     (simp_all add: rate_limited_twice_def isRateLimit_def rate_limit_error_def)

text \<open>An error that is not a rate-limit error leaves after the call that raised it.\<close>

lemma generateContentWithRetry_other_error:
  assumes "ai 0 = Inl e" "\<not> isRateLimit e" "0 < maxRetries"
  shows "generateContentWithRetry ai maxRetries = (Inl e, \<lparr>calls = 1, delays = []\<rparr>)"
  using assms by (simp add: generateContentWithRetry_def retry_loop.simps)

text \<open>
  C3. The retry-wrapped transport is to retry on a rate-limit signal and on a
  service-unavailable signal, and the comment above \<open>isRateLimit\<close> names both 429 and
  503; the test looks for 429 only. A backend that answers the first call with a 503
  error and would answer the second with a response is called once, nothing is waited
  for, and the 503 error is thrown.
\<close>

theorem service_unavailable_not_retried:
  "isRateLimit service_unavailable = False \<and>
   unavailable_once 1 = Inr ok_response \<and>
   generateContentWithRetry unavailable_once 3 = (Inl service_unavailable, \<lparr>calls = 1, delays = []\<rparr>)"
  by (simp add: generateContentWithRetry_def retry_loop.simps isRateLimit_def
        unavailable_once_def service_unavailable_def)

text \<open>
  C4, as the code has it. With a backend that answers every call with a rate-limit error
  and \<open>maxRetries\<close> at least 1, the transport makes exactly \<open>maxRetries\<close> calls, waits
  \<open>2^k * 1000\<close> milliseconds after call \<open>k\<close> for every call but the last, and throws the
  error of the last backend call; what it throws is never \<open>Error("Max retries exceeded")\<close>.
\<close>

theorem exhausted_retries_rethrow_backend_error:
  assumes "\<forall>n. \<exists>e. ai n = Inl e \<and> isRateLimit e" and "1 \<le> maxRetries"
  shows "generateContentWithRetry ai maxRetries =
           (ai (nat (maxRetries - 1)),
            \<lparr>calls = nat maxRetries, delays = map (\<lambda>k. 2 ^ k * 1000) [0..<nat (maxRetries - 1)]\<rparr>) \<and>
         fst (generateContentWithRetry ai maxRetries) \<noteq> Inl (Error ''Max retries exceeded'')"
proof -
  have eq: "generateContentWithRetry ai maxRetries =
           (ai (nat (maxRetries - 1)),
            \<lparr>calls = nat maxRetries, delays = map (\<lambda>k. 2 ^ k * 1000) [0..<nat (maxRetries - 1)]\<rparr>)"
    unfolding generateContentWithRetry_def
    using retry_loop_rate_limited[OF assms(1), of 0 maxRetries "\<lparr>calls = 0, delays = []\<rparr>"] assms(2)
    by simp
  from assms(1) obtain e where e: "ai (nat (maxRetries - 1)) = Inl e" "isRateLimit e" by blast
  have "\<not> isRateLimit (Error ''Max retries exceeded'')"
    by (simp add: isRateLimit_def Error_def)
  with e have "ai (nat (maxRetries - 1)) \<noteq> Inl (Error ''Max retries exceeded'')" by auto
  with eq show ?thesis by simp
qed

text \<open>Three attempts against a backend that is always rate limited.\<close>

theorem exhausted_retries_witness:
  "(\<forall>n. \<exists>e. always_rate_limited n = Inl e \<and> isRateLimit e) \<and> (1::int) \<le> 3 \<and>
   generateContentWithRetry always_rate_limited 3 =
     (Inl rate_limit_error, \<lparr>calls = 3, delays = [1000, 2000]\<rparr>) \<and>
   fst (generateContentWithRetry always_rate_limited 3) \<noteq> Inl (Error ''Max retries exceeded'')"
proof -
  have h: "\<forall>n. \<exists>e. always_rate_limited n = Inl e \<and> isRateLimit e"
    by (simp add: always_rate_limited_def isRateLimit_def rate_limit_error_def)
  have u: "[0..<nat (3 - 1)] = [0, 1]"
    by (simp add: upt_conv_Cons)
  have a: "always_rate_limited (nat (3 - 1)) = Inl rate_limit_error"
    by (simp add: always_rate_limited_def)
  have "generateContentWithRetry always_rate_limited 3 =
          (Inl rate_limit_error, \<lparr>calls = 3, delays = [1000, 2000]\<rparr>) \<and>
        fst (generateContentWithRetry always_rate_limited 3) \<noteq> Inl (Error ''Max retries exceeded'')"
    using exhausted_retries_rethrow_backend_error[OF h, of 3] u a
    by (simp add: rate_limit_error_def Error_def)
  moreover have "(1::int) \<le> 3" by simp
  ultimately show ?thesis using h by blast
qed

text \<open>
  The claim has the transport throw its own budget-exhausted error there; it throws the
  backend's rate-limit error.
\<close>

theorem exhausted_retries_counterexample:
  "generateContentWithRetry always_rate_limited 3 =
     (Inl rate_limit_error, \<lparr>calls = 3, delays = [1000, 2000]\<rparr>) \<and>
   rate_limit_error \<noteq> Error ''Max retries exceeded''"
  by (simp add: generateContentWithRetry_def retry_loop.simps isRateLimit_def
        always_rate_limited_def rate_limit_error_def Error_def)

section \<open>The stage operation\<close>

lemma call_model_calls_pos:
  assumes "getClient e = Inr k"
  shows "0 < calls (snd (call_model e ai c fallback))"
proof -
  have "calls \<lparr>calls = 0, delays = []\<rparr> < calls (snd (retry_loop (ai c) 3 0 \<lparr>calls = 0, delays = []\<rparr>))"
    by (rule retry_loop_calls_pos) simp
  then show ?thesis
    using assms by (auto simp: call_model_def generateContentWithRetry_def split: prod.splits sum.splits)
qed

lemma await_then_calls:
  "backend_calls (snd (await_then call upd p)) = backend_calls p + calls (snd call)"
  by (auto simp: await_then_def setState_def split: prod.splits sum.splits)

lemma generateArtifact_try_calls_pos:
  assumes "getClient e = Inr k" "step \<noteq> RESEARCH"
  shows "backend_calls p < backend_calls (snd (generateArtifact_try e ai step st p))"
  using assms call_model_calls_pos[OF assms(1)]
  by (cases step)
     (simp_all add: generateArtifact_try_def await_then_calls refineIdea_def generatePRD_def
        generatePlan_def generateDesignSystem_def generateCodePrompt_def Let_def)

lemma generateArtifact_returns: "fst (generateArtifact e ai step p) = Inr ()"
  by (simp add: generateArtifact_def Let_def split: prod.splits sum.splits)

lemma generateArtifact_backend_calls:
  "backend_calls (snd (generateArtifact e ai step p)) =
   backend_calls (snd (generateArtifact_try e ai step (state p) (setState (\<lambda>prev. prev\<lparr>isGenerating := True\<rparr>) p)))"
  by (simp add: generateArtifact_def Let_def setState_def alert_def split: prod.splits sum.splits)

text \<open>
  C1, as the code has it. \<open>generateArtifact\<close> checks no prerequisite. For every stage
  with a generation branch (all but RESEARCH) and every project state, also one whose
  prerequisite output is empty, it returns normally, and with an API key configured it
  calls the backend at least once. The prerequisite is kept by the pages: the generate
  buttons of the Planning, Design and Code pages are disabled while the PRD, the roadmap
  and the design output are empty, and the button of the PRD page is disabled only while a
  generation runs.
\<close>

theorem generateArtifact_checks_no_prerequisite:
  assumes "getClient e = Inr k" and "step \<noteq> RESEARCH"
  shows "fst (generateArtifact e ai step p) = Inr () \<and>
         backend_calls p < backend_calls (snd (generateArtifact e ai step p)) \<and>
         (prdOutput st = [] \<longrightarrow> PlanningPage_disabled st) \<and>
         (roadmapOutput st = [] \<longrightarrow> DesignPage_disabled st) \<and>
         (designSystemOutput st = [] \<longrightarrow> CodePage_disabled st) \<and>
         PrdPage_disabled st = isGenerating st"
proof -
  have "backend_calls (setState (\<lambda>prev. prev\<lparr>isGenerating := True\<rparr>) p) = backend_calls p"
    by (simp add: setState_def)
  then have "backend_calls p < backend_calls (snd (generateArtifact e ai step p))"
    using generateArtifact_try_calls_pos[OF assms, of "setState (\<lambda>prev. prev\<lparr>isGenerating := True\<rparr>) p" ai "state p"]
    by (simp add: generateArtifact_backend_calls)
  then show ?thesis
    by (simp add: generateArtifact_returns PlanningPage_disabled_def DesignPage_disabled_def
          CodePage_disabled_def PrdPage_disabled_def)
qed

text \<open>The Planning stage on a fresh project, whose outputs are all empty.\<close>

theorem generateArtifact_checks_no_prerequisite_witness:
  "getClient env_with_key = Inr ''key'' \<and> PLANNING \<noteq> RESEARCH \<and>
   prdOutput (state fresh) = [] \<and> roadmapOutput (state fresh) = [] \<and>
   designSystemOutput (state fresh) = [] \<and>
   fst (generateArtifact env_with_key ai_ok PLANNING fresh) = Inr () \<and>
   backend_calls fresh < backend_calls (snd (generateArtifact env_with_key ai_ok PLANNING fresh)) \<and>
   PlanningPage_disabled (state fresh) \<and> DesignPage_disabled (state fresh) \<and>
   CodePage_disabled (state fresh)"
proof -
  have k: "getClient env_with_key = Inr ''key''"
    by (simp add: getClient_def env_with_key_def or_opt_def truthy_def)
  have s: "PLANNING \<noteq> RESEARCH" by simp
  have f: "prdOutput (state fresh) = []" "roadmapOutput (state fresh) = []"
    "designSystemOutput (state fresh) = []"
    by (simp_all add: fresh_def initialState_def)
  from generateArtifact_checks_no_prerequisite[OF k s, of ai_ok fresh "state fresh"] k f
  show ?thesis by simp
qed

text \<open>
  The claim has the operation raise and leave the backend alone when the prerequisite is
  empty. On a fresh project the PRD output is empty, and the Planning stage calls the
  backend once, returns normally and writes the roadmap.
\<close>

theorem generateArtifact_prerequisite_counterexample:
  "prdOutput (state fresh) = [] \<and>
   generateArtifact env_with_key ai_ok PLANNING fresh =
     (Inr (), fresh\<lparr>state := (state fresh)\<lparr>roadmapOutput := ''Roadmap''\<rparr>, backend_calls := 1\<rparr>)"
  by (simp add: service_defs input_defs)

lemma await_then_Inl:
  "fst (await_then call upd p) = Inl err \<Longrightarrow>
   state (snd (await_then call upd p)) = state p \<and> alerts (snd (await_then call upd p)) = alerts p"
  by (auto simp: await_then_def split: prod.splits sum.splits)

lemma generateArtifact_try_Inl:
  assumes "fst (generateArtifact_try e ai step st p) = Inl err"
  shows "state (snd (generateArtifact_try e ai step st p)) = state p \<and>
         alerts (snd (generateArtifact_try e ai step st p)) = alerts p"
  using assms
  by (cases step) (auto simp: generateArtifact_try_def Let_def dest: await_then_Inl)

text \<open>
  C2, as the code has it. For every stage and every error raised inside the \<open>try\<close> block
  of \<open>generateArtifact\<close> (by \<open>getClient\<close> or by the retry-wrapped transport), the
  operation clears the in-progress flag and leaves the rest of the project state, every
  output slot included, as it was; the error does not reach the caller: the operation
  shows the alert and returns normally.
\<close>

theorem generateArtifact_error_is_caught:
  assumes "fst (generateArtifact_try e ai step (state p)
                  (setState (\<lambda>prev. prev\<lparr>isGenerating := True\<rparr>) p)) = Inl err"
  shows "fst (generateArtifact e ai step p) = Inr () \<and>
         state (snd (generateArtifact e ai step p)) = (state p)\<lparr>isGenerating := False\<rparr> \<and>
         alerts (snd (generateArtifact e ai step p)) =
           alerts p @ [''Failed to generate content. Please check your API key and try again.'']"
proof -
  obtain r p2 where t:
    "generateArtifact_try e ai step (state p) (setState (\<lambda>prev. prev\<lparr>isGenerating := True\<rparr>) p) = (r, p2)"
    by (cases "generateArtifact_try e ai step (state p) (setState (\<lambda>prev. prev\<lparr>isGenerating := True\<rparr>) p)")
  with assms have r: "r = Inl err" by simp
  from generateArtifact_try_Inl[OF assms] t
  have p2: "state p2 = (state p)\<lparr>isGenerating := True\<rparr>" "alerts p2 = alerts p"
    by (simp_all add: setState_def)
  show ?thesis
    unfolding generateArtifact_def Let_def t r
    by (simp add: p2 setState_def alert_def)
qed

text \<open>The Planning stage of a project with a PRD, against a backend that refuses the key.\<close>

theorem generateArtifact_error_is_caught_witness:
  "fst (generateArtifact_try env_with_key ai_unauthorized PLANNING (state with_prd)
          (setState (\<lambda>prev. prev\<lparr>isGenerating := True\<rparr>) with_prd)) = Inl unauthorized \<and>
   fst (generateArtifact env_with_key ai_unauthorized PLANNING with_prd) = Inr () \<and>
   state (snd (generateArtifact env_with_key ai_unauthorized PLANNING with_prd)) =
     (state with_prd)\<lparr>isGenerating := False\<rparr> \<and>
   alerts (snd (generateArtifact env_with_key ai_unauthorized PLANNING with_prd)) =
     alerts with_prd @ [''Failed to generate content. Please check your API key and try again.'']"
proof -
  have h: "fst (generateArtifact_try env_with_key ai_unauthorized PLANNING (state with_prd)
          (setState (\<lambda>prev. prev\<lparr>isGenerating := True\<rparr>) with_prd)) = Inl unauthorized"
    by (simp add: service_defs input_defs)
  from generateArtifact_error_is_caught[OF h] h show ?thesis by blast
qed

text \<open>
  The claim has the error reach the caller. Here the generation call raises
  \<open>unauthorized\<close> after one backend call, and \<open>generateArtifact\<close> returns normally with
  the alert shown.
\<close>

theorem generateArtifact_propagation_counterexample:
  "fst (generatePlan env_with_key ai_unauthorized (prdOutput (state with_prd))) = Inl unauthorized \<and>
   generateArtifact env_with_key ai_unauthorized PLANNING with_prd =
     (Inr (), with_prd\<lparr>alerts := [''Failed to generate content. Please check your API key and try again.''],
                       backend_calls := 1\<rparr>)"
  by (simp add: service_defs input_defs)

section \<open>Reset\<close>

text \<open>
  Resetting a reset project changes nothing, and a reset project has its five outputs,
  its research list and its idea input empty and the title it had. The identifier the
  provider holds in \<open>currentProjectId\<close>, under which the state is saved, is not touched.
  (\<open>resetProject\<close> is applied when the dialog is confirmed.)
\<close>

lemma resetProject_idempotent:
  "resetProject True (resetProject True p) = resetProject True p \<and>
   synthesizedIdea (state (resetProject True p)) = [] \<and>
   prdOutput (state (resetProject True p)) = [] \<and>
   roadmapOutput (state (resetProject True p)) = [] \<and>
   designSystemOutput (state (resetProject True p)) = [] \<and>
   codePromptOutput (state (resetProject True p)) = [] \<and>
   research (state (resetProject True p)) = [] \<and>
   ideaInput (state (resetProject True p)) = [] \<and>
   title (state (resetProject True p)) = title (state p) \<and>
   currentProjectId (resetProject True p) = currentProjectId p"
  by (simp add: resetProject_def setState_def initialState_def Let_def)

lemma resetProject_declined: "resetProject False p = p"
  by (simp add: resetProject_def)

lemma resetProject_state_id: "project_id (state (resetProject True p)) = None"
  by (simp add: resetProject_def setState_def initialState_def Let_def)

text \<open>
  C9. The reset state is to be the same after one reset and after two, cleared, and to
  keep the project's identity and title; the comment in \<open>resetProject\<close> says that the
  ID is kept. The reset state is \<open>initialState\<close> with the old title, and
  \<open>initialState\<close> has no \<open>id\<close>: a project loaded under the identifier \<open>p1\<close>, whose
  state carries \<open>id = p1\<close>, has no \<open>id\<close> in its state after the reset. The title is
  kept, and so is the provider's \<open>currentProjectId\<close>.
\<close>

theorem resetProject_drops_state_id:
  "project_id (state loaded) = Some ''p1'' \<and>
   project_id (state (resetProject True loaded)) = None \<and>
   title (state (resetProject True loaded)) = ''New Project 1'' \<and>
   currentProjectId (resetProject True loaded) = Some ''p1'' \<and>
   resetProject True (resetProject True loaded) = resetProject True loaded"
  by (simp add: resetProject_def setState_def initialState_def loaded_def Let_def)

section \<open>Ingesting a file\<close>

lemma split_no_separator: "c \<notin> set s \<Longrightarrow> split c s = [s]"
  by (induction s) auto

lemma split_first_separator: "c \<notin> set pre \<Longrightarrow> split c (pre @ c # rest) = pre # split c rest"
  by (induction pre) auto

lemma read_pdf_payload:
  assumes "file_dataURL file = Load (Some (pre @ CHR '','' # payload))"
    and "CHR '','' \<notin> set pre" and "CHR '','' \<notin> set payload"
  shows "read_pdf file = Resolved (Some payload)"
  using assms
  by (simp add: read_pdf_def split_first_separator split_no_separator index_def)

text \<open>
  C6, as the code has it. The encoding of the content is decided by one test, whether
  the declared type is \<open>application/pdf\<close>. A PDF whose data URL is a prefix, a comma and
  a payload (neither holding a comma) gives the payload, that is the base64 text with
  the prefix stripped, under the type \<open>application/pdf\<close>. Every other declared type,
  binary ones included, gives the text of the file as \<open>file.text()\<close> decodes it, under
  the declared type, and under \<open>text/plain\<close> when the declared type is empty.
\<close>

theorem addResearch_encoding:
  "(file_type file = ''application/pdf'' \<longrightarrow>
      file_dataURL file = Load (Some (pre @ CHR '','' # payload)) \<longrightarrow>
      CHR '','' \<notin> set pre \<longrightarrow> CHR '','' \<notin> set payload \<longrightarrow>
      addResearch rid file p =
        Resolved (append_research
          \<lparr>doc_id = rid, name = file_name file, content = Some payload,
           mimeType = ''application/pdf'', source = ''upload''\<rparr> p)) \<and>
   (file_type file \<noteq> ''application/pdf'' \<longrightarrow> file_text file = Inr t \<longrightarrow>
      addResearch rid file p =
        Resolved (append_research
          \<lparr>doc_id = rid, name = file_name file, content = Some t,
           mimeType = (if file_type file = [] then ''text/plain'' else file_type file),
           source = ''upload''\<rparr> p))"
  by (auto simp: addResearch_def newDoc_def read_pdf_payload)

text \<open>A PDF, and a file with no declared type.\<close>

theorem addResearch_encoding_witness:
  "file_type pdf_file = ''application/pdf'' \<and>
   file_dataURL pdf_file = Load (Some (''data:application/pdf;base64'' @ CHR '','' # ''JVBERi0xLjQ='')) \<and>
   CHR '','' \<notin> set ''data:application/pdf;base64'' \<and> CHR '','' \<notin> set ''JVBERi0xLjQ='' \<and>
   addResearch ''r1'' pdf_file fresh =
     Resolved (append_research
       \<lparr>doc_id = ''r1'', name = ''report.pdf'', content = Some ''JVBERi0xLjQ='',
        mimeType = ''application/pdf'', source = ''upload''\<rparr> fresh) \<and>
   file_type notes_file \<noteq> ''application/pdf'' \<and> file_text notes_file = Inr ''some notes'' \<and>
   addResearch ''r2'' notes_file fresh =
     Resolved (append_research
       \<lparr>doc_id = ''r2'', name = ''notes'', content = Some ''some notes'',
        mimeType = ''text/plain'', source = ''upload''\<rparr> fresh)"
proof -
  have a: "file_type pdf_file = ''application/pdf''"
    "file_dataURL pdf_file = Load (Some (''data:application/pdf;base64'' @ CHR '','' # ''JVBERi0xLjQ=''))"
    "CHR '','' \<notin> set ''data:application/pdf;base64''" "CHR '','' \<notin> set ''JVBERi0xLjQ=''"
    "file_name pdf_file = ''report.pdf''"
    by (simp_all add: pdf_file_def)
  have b: "file_type notes_file \<noteq> ''application/pdf''" "file_text notes_file = Inr ''some notes''"
    "file_name notes_file = ''notes''" "file_type notes_file = []"
    by (simp_all add: notes_file_def)
  have "addResearch ''r1'' pdf_file fresh =
     Resolved (append_research
       \<lparr>doc_id = ''r1'', name = ''report.pdf'', content = Some ''JVBERi0xLjQ='',
        mimeType = ''application/pdf'', source = ''upload''\<rparr> fresh)"
    using addResearch_encoding[of pdf_file "''data:application/pdf;base64''" "''JVBERi0xLjQ=''" "''r1''" fresh]
      a by simp
  moreover have "addResearch ''r2'' notes_file fresh =
     Resolved (append_research
       \<lparr>doc_id = ''r2'', name = ''notes'', content = Some ''some notes'',
        mimeType = ''text/plain'', source = ''upload''\<rparr> fresh)"
    using addResearch_encoding[of notes_file _ _ "''r2''" fresh "''some notes''"] b by simp
  ultimately show ?thesis using a b by simp
qed

text \<open>
  The claim has every binary type stored as base64. A PNG image is stored as the text
  that \<open>file.text()\<close> decodes, which is not the payload of its data URL.
\<close>

theorem addResearch_binary_counterexample:
  "addResearch ''r1'' png_file fresh =
     Resolved (append_research
       \<lparr>doc_id = ''r1'', name = ''logo.png'', content = Some ''PNG raw bytes'', mimeType = ''image/png'',
        source = ''upload''\<rparr> fresh) \<and>
   file_dataURL png_file = Load (Some ''data:image/png;base64,iVBORw0KGgo='') \<and>
   index (split (CHR '','') ''data:image/png;base64,iVBORw0KGgo='') 1 = Some ''iVBORw0KGgo=''"
  by (simp add: addResearch_def newDoc_def png_file_def index_def)

text \<open>
  C7. A file that cannot be read is to end the operation with an error. On the text path
  it does: the rejection of \<open>file.text()\<close> leaves \<open>addResearch\<close>. On the PDF path the
  promise is settled in \<open>reader.onload\<close> only, which rejects when the result is missing;
  a read error raises the reader's \<open>error\<close> event, for which there is no handler, and the
  promise is never settled: \<open>addResearch\<close> neither returns nor raises.
\<close>

theorem addResearch_unreadable_pdf_never_settles:
  "addResearch rid unreadable_pdf p = Pending"
  by (simp add: addResearch_def read_pdf_def unreadable_pdf_def)

lemma addResearch_unreadable_text:
  "file_type file \<noteq> ''application/pdf'' \<Longrightarrow> file_text file = Inl err \<Longrightarrow>
   addResearch rid file p = Rejected err"
  by (simp add: addResearch_def)

lemma addResearch_missing_result:
  "file_type file = ''application/pdf'' \<Longrightarrow> file_dataURL file = Load None \<Longrightarrow>
   addResearch rid file p = Rejected (Error ''Failed to read file'')"
  by (simp add: addResearch_def read_pdf_def)

section \<open>The stage marker\<close>

lemma await_then_currentStep:
  assumes "\<And>result prev. currentStep (upd result prev) = currentStep prev"
  shows "currentStep (state (snd (await_then call upd p))) = currentStep (state p)"
  using assms by (auto simp: await_then_def setState_def split: prod.splits sum.splits)

lemma generateArtifact_try_currentStep:
  "currentStep (state (snd (generateArtifact_try e ai step st p))) = currentStep (state p)"
  by (cases step) (simp_all add: generateArtifact_try_def Let_def await_then_currentStep)

lemma generateArtifact_currentStep:
  "currentStep (state (snd (generateArtifact e ai step p))) = currentStep (state p)"
proof -
  have "currentStep (state (snd (generateArtifact_try e ai step (state p)
                                   (setState (\<lambda>prev. prev\<lparr>isGenerating := True\<rparr>) p))))
        = currentStep (state (setState (\<lambda>prev. prev\<lparr>isGenerating := True\<rparr>) p))"
    by (rule generateArtifact_try_currentStep)
  then show ?thesis
    by (auto simp: generateArtifact_def Let_def setState_def alert_def split: prod.splits sum.splits)
qed

lemma addResearch_currentStep:
  "addResearch rid file p = Resolved p' \<Longrightarrow> currentStep (state p') = currentStep (state p)"
  by (auto simp: addResearch_def append_research_def setState_def
           split: if_splits outcome.splits sum.splits)

text \<open>
  C10. In every state that \<open>updateIdea\<close>, \<open>addResearch\<close>, \<open>generateArtifact\<close> and
  \<open>resetProject\<close> produce from the initial state, the stage marker \<open>currentStep\<close> is
  still \<open>IDEA\<close>: no operation writes it, not even a generation that succeeds.
\<close>

theorem currentStep_stays_IDEA: "reachable p \<Longrightarrow> currentStep (state p) = IDEA"
proof (induction rule: reachable.induct)
  case (initial cid)
  show ?case by (simp add: initialState_def)
next
  case (updateIdea p idea)
  then show ?case by (simp add: updateIdea_def setState_def)
next
  case (addResearch p rid f p')
  then show ?case using addResearch_currentStep by simp
next
  case (generateArtifact p e ai step)
  then show ?case by (simp add: generateArtifact_currentStep)
next
  case (resetProject p confirmed)
  then show ?case by (simp add: resetProject_def setState_def initialState_def Let_def)
qed

text \<open>An idea typed and then synthesized: the output is written, the marker is not.\<close>

theorem currentStep_stays_IDEA_witness:
  "reachable (snd (generateArtifact env_with_key ai_ok IDEA (updateIdea ''fitness app for seniors'' fresh))) \<and>
   synthesizedIdea (state (snd (generateArtifact env_with_key ai_ok IDEA
                                  (updateIdea ''fitness app for seniors'' fresh)))) = ''Roadmap'' \<and>
   currentStep (state (snd (generateArtifact env_with_key ai_ok IDEA
                              (updateIdea ''fitness app for seniors'' fresh)))) = IDEA"
proof -
  have "reachable fresh" unfolding fresh_def by (rule reachable.initial)
  then have r: "reachable (snd (generateArtifact env_with_key ai_ok IDEA
                                  (updateIdea ''fitness app for seniors'' fresh)))"
    by (intro reachable.generateArtifact reachable.updateIdea)
  have "synthesizedIdea (state (snd (generateArtifact env_with_key ai_ok IDEA
                                       (updateIdea ''fitness app for seniors'' fresh)))) = ''Roadmap''"
    by (simp add: service_defs input_defs updateIdea_def)
  with r currentStep_stays_IDEA[OF r] show ?thesis by simp
qed

section \<open>Loading a project\<close>

text \<open>
  C8, as the code has it. \<open>loadProject\<close> never raises. It returns the data when the
  document exists, and \<open>null\<close> both when no document exists and when reading the store
  fails; in the second case the error is written to the console and not passed on.
\<close>

theorem loadProject_never_raises:
  "loadProject getDoc userId =
     (case getDoc userId of
        Inr docSnap \<Rightarrow> (Inr docSnap, [])
      | Inl error \<Rightarrow> (Inr None, [error]))"
  by (simp add: loadProject_def split: sum.splits option.splits)

text \<open>
  The claim has every failure other than a missing project raised. With the store
  unreachable the result is \<open>null\<close>, as for a missing project.
\<close>

theorem loadProject_unreachable_counterexample:
  "offline_store ''u1'' = Inl store_unreachable \<and>
   loadProject offline_store ''u1'' = (Inr None, [store_unreachable])"
  by (simp add: loadProject_def offline_store_def)

section \<open>Autosave\<close>

text \<open>
  A mutation made while no save is due, with a user signed in and a project selected:
  the timer of the run before is cleared, nothing is written, and one timer is left, the
  new one.
\<close>

lemma mutation_reschedules:
  assumes "user = Some u" "cpid = Some c" "c \<noteq> []" and "no_save_due t a"
  shows "timers (mutation user cpid t st a) =
           [\<lparr>timer_id = next_id a, due = t + 2000, uid = u, pid = c, snapshot = st\<rparr>] \<and>
         cleanup (mutation user cpid t st a) = Some (next_id a) \<and>
         writes (mutation user cpid t st a) = writes a"
proof (cases "timers a")
  case Nil
  then show ?thesis
    using assms(1,2,3)
    by (simp add: mutation_def autosave_effect_def setTimeout_def run_cleanup_def clearTimeout_def
          elapse_def split: option.splits)
next
  case (Cons x xs)
  with assms(4) have xs: "xs = []" and x: "cleanup a = Some (timer_id x)" "t < due x"
    by (simp_all add: no_save_due_def split: list.splits)
  show ?thesis
    using assms(1,2,3) Cons xs x
    by (simp add: mutation_def autosave_effect_def setTimeout_def run_cleanup_def clearTimeout_def
          elapse_def)
qed

lemma mutations_burst:
  assumes "user = Some u" "cpid = Some c" "c \<noteq> []"
  shows "burst ((t, st) # ms) \<Longrightarrow> no_save_due t a \<Longrightarrow>
         \<exists>tm. timers (mutations user cpid ((t, st) # ms) a) = [tm] \<and>
              cleanup (mutations user cpid ((t, st) # ms) a) = Some (timer_id tm) \<and>
              scheduled tm = (fst (last ((t, st) # ms)) + 2000, u, c, snd (last ((t, st) # ms))) \<and>
              writes (mutations user cpid ((t, st) # ms) a) = writes a"
proof (induction ms arbitrary: t st a)
  case Nil
  then show ?case using mutation_reschedules[OF assms, of t a st] by (simp add: scheduled_def)
next
  case (Cons m ms)
  obtain t' st' where m: "m = (t', st')" by (cases m)
  let ?a1 = "mutation user cpid t st a"
  have a1: "timers ?a1 = [\<lparr>timer_id = next_id a, due = t + 2000, uid = u, pid = c, snapshot = st\<rparr>]"
    "cleanup ?a1 = Some (next_id a)" "writes ?a1 = writes a"
    using mutation_reschedules[OF assms Cons.prems(2), of st] by simp_all
  have b: "burst ((t', st') # ms)" and lt: "t' < t + 2000"
    using Cons.prems(1) m by simp_all
  have n: "no_save_due t' ?a1"
    using a1 lt by (simp add: no_save_due_def)
  from Cons.IH[OF b n] a1(3) m show ?case by simp
qed

lemma burst_take: "burst ms \<Longrightarrow> burst (take k ms)"
proof (induction ms arbitrary: k rule: burst.induct)
  case 1
  then show ?case by simp
next
  case (2 m)
  then show ?case by (cases k) simp_all
next
  case (3 m m' ms)
  show ?case
  proof (cases k)
    case 0
    then show ?thesis by simp
  next
    case (Suc j)
    show ?thesis
    proof (cases j)
      case 0
      with Suc show ?thesis by simp
    next
      case (Suc i)
      have "burst (m' # ms)" using "3.prems" by simp
      then have "burst (take (Suc i) (m' # ms))" by (rule "3.IH")
      with "3.prems" Suc \<open>k = Suc j\<close> show ?thesis by simp
    qed
  qed
qed

lemma mutations_nonempty_burst:
  assumes "ms \<noteq> []" and "burst ms"
    and "user = Some u" and "cpid = Some c" and "c \<noteq> []"
    and "no_save_due (fst (hd ms)) a"
  shows "\<exists>tm. timers (mutations user cpid ms a) = [tm] \<and>
              cleanup (mutations user cpid ms a) = Some (timer_id tm) \<and>
              scheduled tm = (fst (last ms) + 2000, u, c, snd (last ms)) \<and>
              writes (mutations user cpid ms a) = writes a"
proof -
  from assms(1) obtain t st ms' where ms: "ms = (t, st) # ms'" by (cases ms) auto
  have b: "burst ((t, st) # ms')" using assms(2) ms by simp
  have c: "no_save_due t a" using assms(6) ms by simp
  show ?thesis unfolding ms by (rule mutations_burst[OF assms(3,4,5) b c])
qed

text \<open>
  C5, as the code has it. While a user is signed in and a project is selected, a burst
  of one or more mutations, each less than 2000 milliseconds after the one before, that
  starts when no save is due, writes nothing while it lasts (after any number \<open>k\<close> of its
  mutations the writes are those made before it); when it ends one timer is left, due
  2000 milliseconds after the last mutation and holding the state of the last mutation;
  and at any later time \<open>T\<close> one write has been made, of that state, once the timer is
  due, and none before. The cleanup of every mutation clears the timer of the one before.
\<close>

theorem autosave_debounce:
  assumes "ms \<noteq> []" and "burst ms"
    and "user = Some u" and "cpid = Some c" and "c \<noteq> []"
    and "no_save_due (fst (hd ms)) a"
  shows "writes (mutations user cpid (take k ms) a) = writes a \<and>
         map scheduled (timers (mutations user cpid ms a)) =
           [(fst (last ms) + 2000, u, c, snd (last ms))] \<and>
         writes (elapse T (mutations user cpid ms a)) =
           (if fst (last ms) + 2000 \<le> T then writes a @ [(u, c, snd (last ms))] else writes a)"
proof -
  obtain tm where tm: "timers (mutations user cpid ms a) = [tm]"
    "scheduled tm = (fst (last ms) + 2000, u, c, snd (last ms))"
    "writes (mutations user cpid ms a) = writes a"
    using mutations_nonempty_burst[OF assms] by blast
  have pre: "writes (mutations user cpid (take k ms) a) = writes a"
  proof (cases "take k ms = []")
    case True
    show ?thesis unfolding True by simp
  next
    case False
    then have k: "0 < k" by (cases k) simp_all
    then have hd: "hd (take k ms) = hd ms" using assms(1) by (cases ms; cases k) simp_all
    have c: "no_save_due (fst (hd (take k ms))) a"
      using assms(6) unfolding hd .
    show ?thesis
      using mutations_nonempty_burst[OF False burst_take[OF assms(2)] assms(3,4,5) c] by blast
  qed
  have fire: "writes (elapse T (mutations user cpid ms a)) =
           (if fst (last ms) + 2000 \<le> T then writes a @ [(u, c, snd (last ms))] else writes a)"
    using tm by (auto simp: elapse_def scheduled_def)
  show ?thesis using pre tm(1,2) fire by simp
qed

text \<open>Three keystrokes at 0, 500 and 1900 milliseconds: one write, at 3900, of the last state.\<close>

theorem autosave_debounce_witness:
  "typing \<noteq> [] \<and> burst typing \<and> no_save_due (fst (hd typing)) idle \<and>
   writes (mutations (Some ''u1'') (Some ''p1'') (take 2 typing) idle) = [] \<and>
   writes (elapse 3899 (mutations (Some ''u1'') (Some ''p1'') typing idle)) = [] \<and>
   writes (elapse 3900 (mutations (Some ''u1'') (Some ''p1'') typing idle)) =
     [(''u1'', ''p1'', initialState\<lparr>ideaInput := ''fit''\<rparr>)]"
proof -
  have h: "typing \<noteq> []" "burst typing" "no_save_due (fst (hd typing)) idle"
    by (simp_all add: typing_def idle_def no_save_due_def)
  have l: "snd (last typing) = initialState\<lparr>ideaInput := ''fit''\<rparr>" "fst (last typing) = 1900"
    "writes idle = []"
    by (simp_all add: typing_def idle_def)
  note t = autosave_debounce[OF h(1,2) refl refl _ h(3), where c = "''p1''" and u = "''u1''"]
  have "writes (mutations (Some ''u1'') (Some ''p1'') (take 2 typing) idle) = []"
    using t[of 2 0] l by simp
  moreover have "writes (elapse 3899 (mutations (Some ''u1'') (Some ''p1'') typing idle)) = []"
    using t[of 0 3899] l by simp
  moreover have "writes (elapse 3900 (mutations (Some ''u1'') (Some ''p1'') typing idle)) =
     [(''u1'', ''p1'', initialState\<lparr>ideaInput := ''fit''\<rparr>)]"
    using t[of 0 3900] l by simp
  ultimately show ?thesis using h by simp
qed

text \<open>Without a signed-in user the effect sets no timer, so nothing is written.\<close>

lemma mutations_signed_out:
  "timers a = [] \<Longrightarrow>
   timers (mutations None cpid ms a) = [] \<and> writes (mutations None cpid ms a) = writes a"
proof (induction ms arbitrary: a)
  case Nil
  then show ?case by simp
next
  case (Cons m ms)
  obtain t st where m: "m = (t, st)" by (cases m)
  have "timers (mutation None cpid t st a) = []" "writes (mutation None cpid t st a) = writes a"
    using Cons.prems
    by (simp_all add: mutation_def autosave_effect_def run_cleanup_def clearTimeout_def elapse_def
          split: option.splits)
  with Cons.IH[of "mutation None cpid t st a"] m show ?case by simp
qed

text \<open>
  The claim has every burst written once. Without a signed-in user the effect sets no
  timer, and the three keystrokes are never written.
\<close>

theorem autosave_signed_out_counterexample:
  "burst typing \<and> writes (elapse 3900 (mutations None (Some ''p1'') typing idle)) = []"
  by (simp add: typing_def idle_def mutation_def autosave_effect_def run_cleanup_def elapse_def)

text \<open>
  The cleanup is what makes the burst one write: the same three keystrokes with timers
  set and never cleared are written three times.
\<close>

lemma timers_without_cleanup:
  "writes (elapse 3900
     (snd (setTimeout 1900 2000 ''u1'' ''p1'' (initialState\<lparr>ideaInput := ''fit''\<rparr>)
        (snd (setTimeout 500 2000 ''u1'' ''p1'' (initialState\<lparr>ideaInput := ''fi''\<rparr>)
           (snd (setTimeout 0 2000 ''u1'' ''p1'' (initialState\<lparr>ideaInput := ''f''\<rparr>) idle))))))) =
   [(''u1'', ''p1'', initialState\<lparr>ideaInput := ''f''\<rparr>),
    (''u1'', ''p1'', initialState\<lparr>ideaInput := ''fi''\<rparr>),
    (''u1'', ''p1'', initialState\<lparr>ideaInput := ''fit''\<rparr>)]"
  by (simp add: setTimeout_def elapse_def idle_def)

end
